theory Spec2Isabelle
  imports Main
begin

section \<open>JavaScript values used by the routes\<close>

text \<open>
  Strings are lists of ASCII characters, so \<open>length\<close> is JavaScript's \<open>.length\<close>.
  A field of a JSON request body, and an item of the browser's localStorage, is an
  optional string: \<open>None\<close> is \<open>undefined\<close> (the field is absent) or \<open>null\<close>.
  Bodies whose fields are numbers, arrays or objects are not modelled.
\<close>

definition truthy :: "string option \<Rightarrow> bool" where
  "truthy v = (case v of None \<Rightarrow> False | Some s \<Rightarrow> s \<noteq> [])"

definition str :: "string option \<Rightarrow> string" where
  "str v = (case v of None \<Rightarrow> [] | Some s \<Rightarrow> s)"

text \<open>\<open>a || b\<close> on strings: the left operand when it is truthy, else the right one.\<close>

definition or_else :: "string option \<Rightarrow> string \<Rightarrow> string" where
  "or_else v d = (if truthy v then str v else d)"

text \<open>\<open>v || null\<close>.\<close>

definition or_null :: "string option \<Rightarrow> string option" where
  "or_null v = (if truthy v then v else None)"

text \<open>The class \<open>\s\<close> of a regular expression, and the characters \<open>trim\<close> removes.\<close>

definition is_space :: "char \<Rightarrow> bool" where
  "is_space c = (c \<in> set [CHR 0x09, CHR 0x0A, CHR 0x0B, CHR 0x0C, CHR 0x0D, CHR 0x20])"

definition trim :: "string \<Rightarrow> string" where
  "trim s = rev (dropWhile is_space (rev (dropWhile is_space s)))"

definition upper_case :: string where
  "upper_case = ''ABCDEFGHIJKLMNOPQRSTUVWXYZ''"

definition lower_case :: string where
  "lower_case = ''abcdefghijklmnopqrstuvwxyz''"

definition toLowerCase_char :: "char \<Rightarrow> char" where
  "toLowerCase_char c =
     (case map_of (zip upper_case lower_case) c of None \<Rightarrow> c | Some d \<Rightarrow> d)"

definition toLowerCase :: "string \<Rightarrow> string" where
  "toLowerCase s = map toLowerCase_char s"

section \<open>Input validation (routes/auth.js, lines 9-16)\<close>

text \<open>The class \<open>[^\s@]\<close>.\<close>

definition plain :: "char \<Rightarrow> bool" where
  "plain c = (\<not> is_space c \<and> c \<noteq> CHR ''@'')"

text \<open>
  \<open>/^[^\s@]+@[^\s@]+\.[^\s@]+$/.test(email)\<close>: the text before the first \<open>@\<close> is not
  empty and has no white space, the text after it has no white space and no \<open>@\<close>, and
  holds a dot that is neither its first nor its last character.
\<close>

definition validateEmail :: "string \<Rightarrow> bool" where
  "validateEmail s =
     (let a = takeWhile (\<lambda>c. c \<noteq> CHR ''@'') s;
          d = drop (Suc (length a)) s
      in a \<noteq> [] \<and> length a < length s \<and> list_all plain a \<and> list_all plain d \<and>
         CHR ''.'' \<in> set (tl (butlast d)))"

text \<open>\<open>password && password.length >= 6\<close>.\<close>

definition validatePassword :: "string option \<Rightarrow> bool" where
  "validatePassword v = (truthy v \<and> 6 \<le> length (str v))"

section \<open>The user model (models/User.js)\<close>

text \<open>
  A user document, with the paths the routes set or read. The other paths of the schema
  (\<open>phoneNumber\<close>, \<open>isActive\<close>, \<open>emailVerified\<close>, \<open>profilePicture\<close>, \<open>timezone\<close>,
  \<open>language\<close>, the timestamps) are never set by a route and keep their defaults.
  \<open>uid\<close> is \<open>_id\<close>; a date is a number.
\<close>

record user =
  uid :: nat
  name :: string
  email :: string
  password :: string
  role :: string
  department :: "string option"
  position :: "string option"
  lastLogin :: "nat option"

text \<open>The document as \<open>toObject\<close> returns it: the transform deletes the password.\<close>

record public_user =
  pub_id :: nat
  pub_name :: string
  pub_email :: string
  pub_role :: string
  pub_department :: "string option"
  pub_position :: "string option"
  pub_lastLogin :: "nat option"

definition toObject :: "user \<Rightarrow> public_user" where
  "toObject u =
     \<lparr>pub_id = uid u, pub_name = name u, pub_email = email u, pub_role = role u,
      pub_department = department u, pub_position = position u,
      pub_lastLogin = lastLogin u\<rparr>"

text \<open>
  What the code throws and catches: Mongoose's \<open>ValidationError\<close> with its messages, a
  database error with its \<open>code\<close> (11000 for a duplicate key), any other \<open>Error\<close>.
\<close>

datatype error =
    ValidationError "string list"
  | MongoError nat
  | Error string

text \<open>
  What a request meets outside the repository: the bcryptjs functions, the salt drawn,
  the clock, the identifier of a new document, and whether a call to the database, to
  bcryptjs or to jsonwebtoken throws (\<open>fails\<close> gives the error it throws).
\<close>

datatype extcall = DbFind | DbSave | BcryptGenSalt | BcryptHash | BcryptCompare | JwtSign

record env =
  genSalt :: "nat \<Rightarrow> string"
  bcrypt_hash :: "string \<Rightarrow> string \<Rightarrow> string"
  bcrypt_compare :: "string \<Rightarrow> string \<Rightarrow> bool"
  fails :: "extcall \<Rightarrow> error option"
  now :: nat
  fresh_id :: nat

text \<open>The enum of the schema's \<open>role\<close> path.\<close>

definition role_values :: "string list" where
  "role_values = [''admin'', ''manager'', ''support'', ''user'']"

text \<open>
  The schema's validators, one message for each path that fails: \<open>required\<close> first,
  then the other validators of the path.
\<close>

definition validate_name :: "string \<Rightarrow> string list" where
  "validate_name n =
     (if n = [] then [''Name is required'']
      else if length n < 2 then [''Name must be at least 2 characters long'']
      else if 50 < length n then [''Name cannot exceed 50 characters'']
      else [])"

definition validate_email :: "string \<Rightarrow> string list" where
  "validate_email e =
     (if e = [] then [''Email is required'']
      else if \<not> validateEmail e then [''Please provide a valid email address'']
      else [])"

definition validate_password :: "string \<Rightarrow> string list" where
  "validate_password p =
     (if p = [] then [''Password is required'']
      else if length p < 6 then [''Password must be at least 6 characters long'']
      else [])"

definition validate_role :: "string \<Rightarrow> string list" where
  "validate_role r =
     (if r \<in> set role_values then []
      else [''Role must be one of: admin, manager, support, user''])"

definition validate_maxlength :: "string \<Rightarrow> string option \<Rightarrow> string list" where
  "validate_maxlength msg v =
     (case v of None \<Rightarrow> [] | Some s \<Rightarrow> if 50 < length s then [msg] else [])"

definition validate :: "user \<Rightarrow> string list" where
  "validate u =
     validate_name (name u) @ validate_email (email u) @ validate_password (password u) @
     validate_role (role u) @
     validate_maxlength ''Department cannot exceed 50 characters'' (department u) @
     validate_maxlength ''Position cannot exceed 50 characters'' (position u)"

text \<open>
  \<open>new User({...})\<close>: the schema's setters (\<open>trim\<close>, \<open>lowercase\<close>) run when a path is
  set.
\<close>

definition new_User ::
  "env \<Rightarrow> string \<Rightarrow> string \<Rightarrow> string \<Rightarrow> string \<Rightarrow> string option \<Rightarrow> string option \<Rightarrow> user" where
  "new_User env n e p r d pos =
     \<lparr>uid = fresh_id env, name = trim n, email = toLowerCase (trim e), password = p,
      role = r, department = map_option trim d, position = map_option trim pos,
      lastLogin = None\<rparr>"

text \<open>\<open>bcrypt.genSalt(12)\<close>, then \<open>bcrypt.hash(password, salt)\<close>: the two hooks run the same two calls.\<close>

definition hash_password :: "env \<Rightarrow> string \<Rightarrow> error + string" where
  "hash_password env p =
     (case fails env BcryptGenSalt of
        Some err \<Rightarrow> Inl err
      | None \<Rightarrow>
          (case fails env BcryptHash of
             Some err \<Rightarrow> Inl err
           | None \<Rightarrow> Inr (bcrypt_hash env p (genSalt env 12))))"

text \<open>
  The hook \<open>pre('save')\<close> (lines 120-136). \<open>modified\<close> is \<open>this.isModified('password')\<close>;
  \<open>Inl\<close> is \<open>next(error)\<close>, which aborts the save.
\<close>

definition pre_save :: "env \<Rightarrow> bool \<Rightarrow> user \<Rightarrow> error + user" where
  "pre_save env modified u =
     (if \<not> modified then Inr u
      else if length (password u) < 6
        then Inl (Error ''Password must be at least 6 characters long'')
      else (case hash_password env (password u) of
              Inl err \<Rightarrow> Inl err
            | Inr h \<Rightarrow> Inr (u\<lparr>password := h\<rparr>)))"

text \<open>An update object: the paths a partial update sets (\<open>None\<close>: the path is not in it).\<close>

record update =
  upd_name :: "string option"
  upd_password :: "string option"

text \<open>
  The hook \<open>pre('findOneAndUpdate')\<close> (lines 139-155): the update as the hook leaves
  it, and its calls of \<open>next\<close> in order (\<open>Some err\<close> is \<open>next(err)\<close>, \<open>None\<close> is
  \<open>next()\<close>). After the \<open>catch\<close> the function goes on to the last line, so an error
  is followed by a second call.
\<close>

definition pre_findOneAndUpdate :: "env \<Rightarrow> update \<Rightarrow> update \<times> error option list" where
  "pre_findOneAndUpdate env upd =
     (if truthy (upd_password upd) then
        (if length (str (upd_password upd)) < 6
           then (upd, [Some (Error ''Password must be at least 6 characters long''), None])
         else (case hash_password env (str (upd_password upd)) of
                 Inl err \<Rightarrow> (upd, [Some err, None])
               | Inr h \<Rightarrow> (upd\<lparr>upd_password := Some h\<rparr>, [None])))
      else (upd, [None]))"

text \<open>Mongoose lets a hook's \<open>next\<close> act once: its first call decides.\<close>

definition first_next :: "error option list \<Rightarrow> error option" where
  "first_next calls = (case calls of [] \<Rightarrow> None | c # _ \<Rightarrow> c)"

fun update_first :: "(user \<Rightarrow> bool) \<Rightarrow> (user \<Rightarrow> user) \<Rightarrow> user list \<Rightarrow> user list" where
  "update_first P f [] = []"
| "update_first P f (v # vs) = (if P v then f v # vs else v # update_first P f vs)"

text \<open>The paths of the update are set on the document (\<open>$set\<close>); the name is trimmed.\<close>

definition apply_update :: "update \<Rightarrow> user \<Rightarrow> user" where
  "apply_update upd u =
     (let u1 = (case upd_name upd of None \<Rightarrow> u | Some n \<Rightarrow> u\<lparr>name := trim n\<rparr>)
      in (case upd_password upd of None \<Rightarrow> u1 | Some p \<Rightarrow> u1\<lparr>password := p\<rparr>))"

text \<open>
  \<open>User.findOneAndUpdate({_id: i}, upd)\<close>: the hook, then the write (validators do not
  run on updates unless asked for).
\<close>

definition findOneAndUpdate :: "env \<Rightarrow> user list \<Rightarrow> nat \<Rightarrow> update \<Rightarrow> error + user list" where
  "findOneAndUpdate env st i upd =
     (case pre_findOneAndUpdate env upd of
        (upd', calls) \<Rightarrow>
          (case first_next calls of
             Some err \<Rightarrow> Inl err
           | None \<Rightarrow>
               (case fails env DbSave of
                  Some err \<Rightarrow> Inl err
                | None \<Rightarrow> Inr (update_first (\<lambda>v. uid v = i) (apply_update upd') st))))"

text \<open>
  \<open>doc.save()\<close>: validation, then the \<open>pre('save')\<close> hook, then the write. A new
  document is inserted, and the unique indexes (\<open>_id\<close>, \<open>email\<close>) refuse a duplicate with
  code 11000; a loaded document replaces the stored one with its \<open>_id\<close>.
\<close>

definition save :: "env \<Rightarrow> user list \<Rightarrow> bool \<Rightarrow> bool \<Rightarrow> user \<Rightarrow> error + user \<times> user list" where
  "save env st isNew modified u =
     (case validate u of
        m # ms \<Rightarrow> Inl (ValidationError (m # ms))
      | [] \<Rightarrow>
          (case pre_save env modified u of
             Inl err \<Rightarrow> Inl err
           | Inr u' \<Rightarrow>
               (case fails env DbSave of
                  Some err \<Rightarrow> Inl err
                | None \<Rightarrow>
                    if isNew then
                      (if list_ex (\<lambda>v. email v = email u' \<or> uid v = uid u') st
                         then Inl (MongoError 11000)
                       else Inr (u', st @ [u']))
                    else Inr (u', update_first (\<lambda>v. uid v = uid u') (\<lambda>v. u') st))))"

text \<open>
  \<open>User.findOne({email})\<close> and \<open>User.findById(id)\<close>; the setters of the \<open>email\<close> path
  run on the filter too.
\<close>

definition findOne :: "env \<Rightarrow> user list \<Rightarrow> string \<Rightarrow> error + user option" where
  "findOne env st e =
     (case fails env DbFind of
        Some err \<Rightarrow> Inl err
      | None \<Rightarrow> Inr (find (\<lambda>u. email u = toLowerCase (trim e)) st))"

definition findById :: "env \<Rightarrow> user list \<Rightarrow> nat \<Rightarrow> error + user option" where
  "findById env st i =
     (case fails env DbFind of
        Some err \<Rightarrow> Inl err
      | None \<Rightarrow> Inr (find (\<lambda>u. uid u = i) st))"

text \<open>The method \<open>comparePassword\<close> (lines 158-164).\<close>

definition comparePassword :: "env \<Rightarrow> user \<Rightarrow> string \<Rightarrow> error + bool" where
  "comparePassword env u candidate =
     (case fails env BcryptCompare of
        Some err \<Rightarrow> Inl (Error ''Error comparing passwords'')
      | None \<Rightarrow> Inr (bcrypt_compare env candidate (password u)))"

text \<open>
  The method \<open>hasRole\<close> (lines 167-176). The schema's enum keeps \<open>this.role\<close> among
  the four keys of \<open>roleHierarchy\<close>, so the left side is a number; a required role
  that is not a key has no rank, and \<open>>=\<close> is false when a side has none.
\<close>

definition roleHierarchy :: "string \<Rightarrow> nat option" where
  "roleHierarchy =
     map_of [(''user'', 1), (''support'', 2), (''manager'', 3), (''admin'', 4)]"

definition hasRole :: "user \<Rightarrow> string \<Rightarrow> bool" where
  "hasRole u requiredRole =
     (case (roleHierarchy (role u), roleHierarchy requiredRole) of
        (Some a, Some b) \<Rightarrow> b \<le> a
      | _ \<Rightarrow> False)"

section \<open>The routes (routes/auth.js)\<close>

text \<open>The fields of \<open>req.body\<close> the routes read.\<close>

record body =
  body_name :: "string option"
  body_email :: "string option"
  body_password :: "string option"
  body_role :: "string option"
  body_department :: "string option"
  body_position :: "string option"
  body_currentPassword :: "string option"
  body_newPassword :: "string option"

text \<open>
  The payload \<open>jwt.sign\<close> signs, with its time of issue; \<open>req.user\<close>, which the
  middleware sets from a valid bearer token, is such a payload.
\<close>

record token =
  tok_id :: nat
  tok_role :: string
  tok_email :: string
  tok_iat :: nat

definition jwt_sign :: "env \<Rightarrow> user \<Rightarrow> error + token" where
  "jwt_sign env u =
     (case fails env JwtSign of
        Some err \<Rightarrow> Inl err
      | None \<Rightarrow>
          Inr \<lparr>tok_id = uid u, tok_role = role u, tok_email = email u, tok_iat = now env\<rparr>)"

record response =
  status :: nat
  success :: bool
  message :: string
  res_token :: "token option"
  res_user :: "public_user option"
  errors :: "string list"

definition reply :: "nat \<Rightarrow> string \<Rightarrow> response" where
  "reply code msg =
     \<lparr>status = code, success = False, message = msg, res_token = None, res_user = None,
      errors = []\<rparr>"

text \<open>
  \<open>POST /login\<close> (lines 19-96). A handler returns the response and the store as the
  request leaves it; every \<open>Inl\<close> below is an exception that the handler's \<open>catch\<close>
  turns into 500.
\<close>

definition login :: "env \<Rightarrow> user list \<Rightarrow> body \<Rightarrow> response \<times> user list" where
  "login env st b =
     (if \<not> truthy (body_email b) \<or> \<not> truthy (body_password b)
        then (reply 400 ''Email and password are required'', st)
      else if \<not> validateEmail (str (body_email b))
        then (reply 400 ''Invalid email format'', st)
      else if \<not> validatePassword (body_password b)
        then (reply 400 ''Password must be at least 6 characters long'', st)
      else
        (case findOne env st (str (body_email b)) of
           Inl err \<Rightarrow> (reply 500 ''Server error during authentication'', st)
         | Inr None \<Rightarrow> (reply 401 ''Invalid email or password'', st)
         | Inr (Some u) \<Rightarrow>
             (case comparePassword env u (str (body_password b)) of
                Inl err \<Rightarrow> (reply 500 ''Server error during authentication'', st)
              | Inr False \<Rightarrow> (reply 401 ''Invalid email or password'', st)
              | Inr True \<Rightarrow>
                  (case save env st False False (u\<lparr>lastLogin := Some (now env)\<rparr>) of
                     Inl err \<Rightarrow> (reply 500 ''Server error during authentication'', st)
                   | Inr (u', st') \<Rightarrow>
                       (case jwt_sign env u' of
                          Inl err \<Rightarrow> (reply 500 ''Server error during authentication'', st')
                        | Inr t \<Rightarrow>
                            (\<lparr>status = 200, success = True, message = ''Login successful'',
                              res_token = Some t, res_user = Some (toObject u'),
                              errors = []\<rparr>, st'))))))"

text \<open>The \<open>catch\<close> of the two routes that create a user.\<close>

definition create_failed :: "string \<Rightarrow> error \<Rightarrow> response" where
  "create_failed msg err =
     (case err of
        ValidationError ms \<Rightarrow> (reply 400 ''Validation error'')\<lparr>errors := ms\<rparr>
      | MongoError c \<Rightarrow>
          if c = 11000 then reply 409 ''User already exists with this email''
          else reply 500 msg
      | Error m \<Rightarrow> reply 500 msg)"

text \<open>\<open>POST /register\<close> (lines 99-194), a public route: it reads no token.\<close>

definition register :: "env \<Rightarrow> user list \<Rightarrow> body \<Rightarrow> response \<times> user list" where
  "register env st b =
     (if \<not> truthy (body_name b) \<or> \<not> truthy (body_email b) \<or> \<not> truthy (body_password b)
        then (reply 400 ''Name, email and password are required'', st)
      else if \<not> validateEmail (str (body_email b))
        then (reply 400 ''Invalid email format'', st)
      else if \<not> validatePassword (body_password b)
        then (reply 400 ''Password must be at least 6 characters long'', st)
      else
        (case findOne env st (str (body_email b)) of
           Inl err \<Rightarrow> (create_failed ''Server error during registration'' err, st)
         | Inr (Some existingUser) \<Rightarrow> (reply 409 ''User already exists with this email'', st)
         | Inr None \<Rightarrow>
             (case save env st True True
                     (new_User env (str (body_name b)) (str (body_email b))
                        (str (body_password b)) (or_else (body_role b) ''user'')
                        (or_null (body_department b)) (or_null (body_position b))) of
                Inl err \<Rightarrow> (create_failed ''Server error during registration'' err, st)
              | Inr (u', st') \<Rightarrow>
                  (case jwt_sign env u' of
                     Inl err \<Rightarrow> (create_failed ''Server error during registration'' err, st')
                   | Inr t \<Rightarrow>
                       (\<lparr>status = 201, success = True,
                         message = ''User registered successfully'', res_token = Some t,
                         res_user = Some (toObject u'), errors = []\<rparr>, st')))))"

text \<open>
  \<open>POST /admin/create-user\<close> (lines 222-311), behind the middleware: \<open>caller\<close> is
  \<open>req.user\<close>.
\<close>

definition admin_create_user ::
  "env \<Rightarrow> user list \<Rightarrow> token \<Rightarrow> body \<Rightarrow> response \<times> user list" where
  "admin_create_user env st caller b =
     (if tok_role caller \<noteq> ''admin''
        then (reply 403 ''Access denied. Admin only.'', st)
      else if \<not> truthy (body_name b) \<or> \<not> truthy (body_email b) \<or>
              \<not> truthy (body_password b) \<or> \<not> truthy (body_role b)
        then (reply 400 ''All fields are required'', st)
      else if \<not> validateEmail (str (body_email b))
        then (reply 400 ''Invalid email format'', st)
      else if \<not> validatePassword (body_password b)
        then (reply 400 ''Password must be at least 6 characters long'', st)
      else
        (case findOne env st (str (body_email b)) of
           Inl err \<Rightarrow> (create_failed ''Server error while creating user'' err, st)
         | Inr (Some existingUser) \<Rightarrow> (reply 409 ''User already exists with this email'', st)
         | Inr None \<Rightarrow>
             (case save env st True True
                     (new_User env (str (body_name b)) (str (body_email b))
                        (str (body_password b)) (str (body_role b))
                        (body_department b) (body_position b)) of
                Inl err \<Rightarrow> (create_failed ''Server error while creating user'' err, st)
              | Inr (u', st') \<Rightarrow>
                  (\<lparr>status = 201, success = True, message = ''User created successfully'',
                    res_token = None, res_user = Some (toObject u'), errors = []\<rparr>, st'))))"

text \<open>
  \<open>POST /change-password\<close> (lines 314-367), behind the middleware. Assigning the new
  password marks the path modified when the value differs from the stored one.
\<close>

definition change_password ::
  "env \<Rightarrow> user list \<Rightarrow> token \<Rightarrow> body \<Rightarrow> response \<times> user list" where
  "change_password env st caller b =
     (if \<not> truthy (body_currentPassword b) \<or> \<not> truthy (body_newPassword b)
        then (reply 400 ''Current password and new password are required'', st)
      else if \<not> validatePassword (body_newPassword b)
        then (reply 400 ''New password must be at least 6 characters long'', st)
      else
        (case findById env st (tok_id caller) of
           Inl err \<Rightarrow> (reply 500 ''Server error while changing password'', st)
         | Inr None \<Rightarrow> (reply 404 ''User not found'', st)
         | Inr (Some u) \<Rightarrow>
             (case comparePassword env u (str (body_currentPassword b)) of
                Inl err \<Rightarrow> (reply 500 ''Server error while changing password'', st)
              | Inr False \<Rightarrow> (reply 401 ''Current password is incorrect'', st)
              | Inr True \<Rightarrow>
                  (case save env st False (str (body_newPassword b) \<noteq> password u)
                          (u\<lparr>password := str (body_newPassword b)\<rparr>) of
                     Inl err \<Rightarrow> (reply 500 ''Server error while changing password'', st)
                   | Inr (u', st') \<Rightarrow>
                       ((reply 200 ''Password updated successfully'')\<lparr>success := True\<rparr>,
                        st')))))"

section \<open>The client's authentication context (AuthContext.jsx)\<close>

text \<open>
  \<open>userData\<close>, the object \<open>{email, uid}\<close> kept as \<open>currentUser\<close>; a property is \<open>None\<close>
  when the object read back from the storage does not have it.
\<close>

record user_data =
  ud_email :: "string option"
  ud_uid :: "string option"

text \<open>
  The item \<open>currentUser\<close> of localStorage by what \<open>JSON.parse\<close> makes of its text:
  \<open>Malformed\<close> is a text that does not parse, or parses to \<open>null\<close> (reading \<open>.email\<close>
  throws on both); an item is \<open>None\<close> when \<open>getItem\<close> gives \<open>null\<close> or the empty text.
\<close>

datatype stored_user = Malformed | Parsed user_data

record local_storage =
  ls_currentUser :: "stored_user option"
  ls_userRole :: "string option"
  ls_userId :: "string option"

record auth =
  currentUser :: "user_data option"
  userRole :: string
  userId :: "string option"
  loading :: bool

text \<open>The four \<open>useState\<close> initial values (lines 22-25).\<close>

definition initial_auth :: auth where
  "initial_auth = \<lparr>currentUser = None, userRole = ''guest'', userId = None, loading = True\<rparr>"

record sim_user =
  su_password :: string
  su_role :: string
  su_id :: string
  su_email :: string

text \<open>The object literal \<open>simulatedUsers\<close> (lines 28-41), created anew by every render.\<close>

definition simulatedUsers :: "(string \<times> sim_user) list" where
  "simulatedUsers =
     [(''admin@example.com'',
        \<lparr>su_password = ''password'', su_role = ''admin'', su_id = ''admin-123'',
         su_email = ''admin@example.com''\<rparr>),
      (''user@example.com'',
        \<lparr>su_password = ''password'', su_role = ''user'', su_id = ''user-456'',
         su_email = ''user@example.com''\<rparr>)]"

text \<open>
  \<open>obj[key]\<close> on an object literal reads the object's own properties and then those of
  \<open>Object.prototype\<close>, which are functions (and, for \<open>__proto__\<close>, an object): all
  truthy. \<open>has_truthy obj k\<close> is the truth value of \<open>obj[k]\<close> for an object whose own
  values are objects.
\<close>

definition Object_prototype :: "string list" where
  "Object_prototype =
     [''constructor'', ''hasOwnProperty'', ''isPrototypeOf'', ''propertyIsEnumerable'',
      ''toLocaleString'', ''toString'', ''valueOf'', ''__proto__'', ''__defineGetter__'',
      ''__defineSetter__'', ''__lookupGetter__'', ''__lookupSetter__'']"

definition has_truthy :: "(string \<times> sim_user) list \<Rightarrow> string \<Rightarrow> bool" where
  "has_truthy obj k = (map_of obj k \<noteq> None \<or> k \<in> set Object_prototype)"

text \<open>The property key a value is turned into: \<open>undefined\<close> becomes the text \<open>undefined\<close>.\<close>

definition property_key :: "string option \<Rightarrow> string" where
  "property_key v = (case v of None \<Rightarrow> ''undefined'' | Some k \<Rightarrow> k)"

text \<open>\<open>clearAuthStorage\<close> (lines 77-84).\<close>

definition clearAuthStorage :: "local_storage \<times> auth \<Rightarrow> local_storage \<times> auth" where
  "clearAuthStorage s =
     (\<lparr>ls_currentUser = None, ls_userRole = None, ls_userId = None\<rparr>,
      (snd s)\<lparr>currentUser := None, userRole := ''guest'', userId := None\<rparr>)"

text \<open>
  \<open>checkAuthStatus\<close> (lines 45-71), run once when the provider mounts, with the
  \<open>simulatedUsers\<close> of that render; the \<open>finally\<close> ends the loading.
\<close>

definition checkAuthStatus ::
  "(string \<times> sim_user) list \<Rightarrow> local_storage \<times> auth \<Rightarrow> local_storage \<times> auth" where
  "checkAuthStatus sim s =
     (let r =
        (if ls_currentUser (fst s) \<noteq> None \<and> truthy (ls_userRole (fst s)) \<and>
            truthy (ls_userId (fst s))
         then
           (case ls_currentUser (fst s) of
              Some (Parsed parsedUser) \<Rightarrow>
                if has_truthy sim (property_key (ud_email parsedUser))
                then (fst s,
                      (snd s)\<lparr>currentUser := Some parsedUser,
                              userRole := str (ls_userRole (fst s)),
                              userId := ls_userId (fst s)\<rparr>)
                else clearAuthStorage s
            | _ \<Rightarrow> clearAuthStorage s)
         else s)
      in (fst r, (snd r)\<lparr>loading := False\<rparr>))"

text \<open>The client as it is once the provider has mounted over a given storage.\<close>

definition startup :: "local_storage \<Rightarrow> local_storage \<times> auth" where
  "startup ls = checkAuthStatus simulatedUsers (ls, initial_auth)"

text \<open>
  The simulated \<open>register\<close> (lines 97-140): a rejection's code, or the users, the
  storage and the state it leaves. \<open>r\<close> is the role argument, \<open>'user'\<close> when it is
  not given; \<open>newUserId\<close> is the identifier made from the clock.
\<close>

definition AuthProvider_register ::
  "(string \<times> sim_user) list \<Rightarrow> local_storage \<times> auth \<Rightarrow> string \<Rightarrow> string \<Rightarrow> string \<Rightarrow>
   string option \<Rightarrow> string + (string \<times> sim_user) list \<times> local_storage \<times> auth" where
  "AuthProvider_register sim s newUserId e p r =
     (if \<not> validateEmail e then Inl ''auth/invalid-email''
      else if \<not> validatePassword (Some p) then Inl ''auth/weak-password''
      else if has_truthy sim e then Inl ''auth/email-already-in-use''
      else
        (let r' = (case r of None \<Rightarrow> ''user'' | Some x \<Rightarrow> x);
             userData = \<lparr>ud_email = Some e, ud_uid = Some newUserId\<rparr>
         in Inr (sim @ [(e, \<lparr>su_password = p, su_role = r', su_id = newUserId, su_email = e\<rparr>)],
                 \<lparr>ls_currentUser = Some (Parsed userData), ls_userRole = Some r',
                  ls_userId = Some newUserId\<rparr>,
                 (snd s)\<lparr>currentUser := Some userData, userRole := r',
                         userId := Some newUserId\<rparr>)))"

section \<open>The client's route guard and registration form\<close>

text \<open>What the guard renders; \<open>Navigate to from\<close> carries the location asked for.\<close>

datatype 'a element =
    LoadingSpinner
  | Navigate string string
  | AccessDenied "string list"
  | Children 'a

text \<open>
  \<open>ProtectedRoute\<close> (the application's router, lines 431-470 of the file that holds
  routes/auth.js); \<open>allowedRoles\<close> is \<open>[]\<close> when the route gives none.
\<close>

definition ProtectedRoute :: "auth \<Rightarrow> string \<Rightarrow> string list \<Rightarrow> 'a \<Rightarrow> 'a element" where
  "ProtectedRoute st location allowedRoles children =
     (if loading st then LoadingSpinner
      else if currentUser st = None then Navigate ''/login'' location
      else if 0 < length allowedRoles \<and> userRole st \<notin> set allowedRoles
        then AccessDenied allowedRoles
      else Children children)"

text \<open>The protected routes of \<open>AppContent\<close>, each with its \<open>allowedRoles\<close>.\<close>

definition protected_routes :: "(string \<times> string list) list" where
  "protected_routes =
     [(''/'', [''user'', ''admin'', ''manager'', ''support'']),
      (''/users'', [''admin'']),
      (''/materials'', [''user'', ''admin'', ''manager'', ''support'']),
      (''/categories'', [''user'', ''admin'', ''manager'', ''support'']),
      (''/roles'', [''admin''])]"

text \<open>
  The values of the options \<open>availableRoles\<close> of the registration form (lines 22-25 of
  the registration page).
\<close>

definition availableRoles :: "string list" where
  "availableRoles = [''user'', ''admin'']"

section \<open>Example data\<close>

text \<open>
  A stand-in for bcryptjs, used only to run the examples: the hash is the salt followed
  by the plaintext. No general statement below depends on it.
\<close>

definition demo_env :: env where
  "demo_env =
     \<lparr>genSalt = (\<lambda>rounds. ''$2a$12$demo.salt.''),
      bcrypt_hash = (\<lambda>p s. s @ p),
      bcrypt_compare = (\<lambda>c h. h = ''$2a$12$demo.salt.'' @ c),
      fails = (\<lambda>c. None),
      now = 1000,
      fresh_id = 1\<rparr>"

definition empty_body :: body where
  "empty_body =
     \<lparr>body_name = None, body_email = None, body_password = None, body_role = None,
      body_department = None, body_position = None, body_currentPassword = None,
      body_newPassword = None\<rparr>"

text \<open>Request bodies: the registration of the specification's scenario, a login, a change of password.\<close>

definition alice_register :: body where
  "alice_register =
     empty_body\<lparr>body_name := Some ''Alice'', body_email := Some ''a@x.com'',
                body_password := Some ''secret1''\<rparr>"

definition login_request :: "string \<Rightarrow> string \<Rightarrow> body" where
  "login_request e p = empty_body\<lparr>body_email := Some e, body_password := Some p\<rparr>"

definition password_request :: "string \<Rightarrow> string \<Rightarrow> body" where
  "password_request cur new =
     empty_body\<lparr>body_currentPassword := Some cur, body_newPassword := Some new\<rparr>"

text \<open>The account the registration stores.\<close>

definition alice :: user where
  "alice =
     \<lparr>uid = 1, name = ''Alice'', email = ''a@x.com'',
      password = ''$2a$12$demo.salt.secret1'', role = ''user'', department = None,
      position = None, lastLogin = None\<rparr>"

text \<open>An authenticated client state with a given role, and the payload of a valid token.\<close>

definition signed_in :: "string \<Rightarrow> auth" where
  "signed_in r =
     \<lparr>currentUser = Some \<lparr>ud_email = Some ''user@example.com'', ud_uid = Some ''user-456''\<rparr>,
      userRole = r, userId = Some ''user-456'', loading = False\<rparr>"

definition member_token :: "string \<Rightarrow> token" where
  "member_token r = \<lparr>tok_id = 1, tok_role = r, tok_email = ''a@x.com'', tok_iat = 1000\<rparr>"

text \<open>
  A registration that passes the handler's checks and the schema's validators of every
  path but the role, for an email that is not registered yet and a fresh identifier,
  with no failing call; and the document such a registration stores with role \<open>r\<close>.
\<close>

definition valid_registration :: "env \<Rightarrow> user list \<Rightarrow> body \<Rightarrow> bool" where
  "valid_registration env st b =
     (truthy (body_name b) \<and> validate_name (trim (str (body_name b))) = [] \<and>
      validateEmail (str (body_email b)) \<and> validatePassword (body_password b) \<and>
      validate_maxlength [] (map_option trim (or_null (body_department b))) = [] \<and>
      validate_maxlength [] (map_option trim (or_null (body_position b))) = [] \<and>
      findOne env st (str (body_email b)) = Inr None \<and>
      fails env DbSave = None \<and> fails env BcryptGenSalt = None \<and>
      fails env BcryptHash = None \<and> fails env JwtSign = None \<and>
      \<not> list_ex (\<lambda>v. uid v = fresh_id env) st)"

definition registered :: "env \<Rightarrow> body \<Rightarrow> string \<Rightarrow> user" where
  "registered env b r =
     \<lparr>uid = fresh_id env, name = trim (str (body_name b)),
      email = toLowerCase (str (body_email b)),
      password = bcrypt_hash env (str (body_password b)) (genSalt env 12), role = r,
      department = map_option trim (or_null (body_department b)),
      position = map_option trim (or_null (body_position b)), lastLogin = None\<rparr>"

text \<open>
  A storage whose \<open>currentUser\<close> names no simulated user but a property every object
  inherits, and the client after \<open>clearAuthStorage\<close> once loading has ended.
\<close>

definition tampered_storage :: local_storage where
  "tampered_storage =
     \<lparr>ls_currentUser = Some (Parsed \<lparr>ud_email = Some ''constructor'', ud_uid = Some ''u1''\<rparr>),
      ls_userRole = Some ''admin'', ls_userId = Some ''u1''\<rparr>"

definition signed_out :: "local_storage \<times> auth" where
  "signed_out =
     (\<lparr>ls_currentUser = None, ls_userRole = None, ls_userId = None\<rparr>,
      \<lparr>currentUser = None, userRole = ''guest'', userId = None, loading = False\<rparr>)"

section \<open>The role order as the specification words it\<close>

text \<open>
  The fixed order \<open>{user=1, support=2, manager=3, admin=4}\<close> of the specification,
  written independently of \<open>roleHierarchy\<close>, to compare the code with.
\<close>

definition spec_rank :: "string \<Rightarrow> nat" where
  "spec_rank r =
     (if r = ''user'' then 1 else if r = ''support'' then 2
      else if r = ''manager'' then 3 else if r = ''admin'' then 4 else 0)"

section \<open>Facts about the input validation\<close>

text \<open>\<open>validateEmail\<close> accepts exactly the texts the regular expression matches.\<close>

lemma validateEmail_iff:
  "validateEmail s \<longleftrightarrow>
     (\<exists>a d. s = a @ CHR ''@'' # d \<and> a \<noteq> [] \<and> list_all plain a \<and> list_all plain d \<and>
            CHR ''.'' \<in> set (tl (butlast d)))"
proof
  assume v: "validateEmail s"
  let ?a = "takeWhile (\<lambda>c. c \<noteq> CHR ''@'') s"
  let ?r = "dropWhile (\<lambda>c. c \<noteq> CHR ''@'') s"
  from v have len: "length ?a < length s"
    by (simp add: validateEmail_def Let_def)
  have s: "s = ?a @ ?r" by simp
  from len have "?r \<noteq> []"
    by (metis append_Nil2 less_irrefl_nat takeWhile_dropWhile_id)
  then obtain x r' where r: "?r = x # r'" by (cases ?r) auto
  then have "x = CHR ''@''"
    using hd_dropWhile [of "\<lambda>c. c \<noteq> CHR ''@''" s] by auto
  with r have r2: "?r = CHR ''@'' # r'" by simp
  have "drop (Suc (length ?a)) s = tl (drop (length ?a) s)"
    by (simp add: drop_Suc drop_tl)
  also have "drop (length ?a) s = ?r"
    by (simp add: dropWhile_eq_drop)
  finally have d: "drop (Suc (length ?a)) s = r'" using r2 by simp
  from s r2 have "s = ?a @ CHR ''@'' # r'" by simp
  moreover from v d have "?a \<noteq> [] \<and> list_all plain ?a \<and> list_all plain r' \<and>
      CHR ''.'' \<in> set (tl (butlast r'))"
    by (simp add: validateEmail_def Let_def)
  ultimately show "\<exists>a d. s = a @ CHR ''@'' # d \<and> a \<noteq> [] \<and> list_all plain a \<and>
      list_all plain d \<and> CHR ''.'' \<in> set (tl (butlast d))"
    by blast
next
  assume "\<exists>a d. s = a @ CHR ''@'' # d \<and> a \<noteq> [] \<and> list_all plain a \<and> list_all plain d \<and>
            CHR ''.'' \<in> set (tl (butlast d))"
  then obtain a d where s: "s = a @ CHR ''@'' # d" and a: "a \<noteq> []" "list_all plain a"
    and d: "list_all plain d" "CHR ''.'' \<in> set (tl (butlast d))"
    by blast
  from a have "\<forall>c \<in> set a. c \<noteq> CHR ''@''"
    by (simp add: list_all_iff plain_def)
  then have t: "takeWhile (\<lambda>c. c \<noteq> CHR ''@'') s = a"
    using s by (simp add: takeWhile_append2)
  then show "validateEmail s"
    using s a d by (simp add: validateEmail_def Let_def)
qed

lemma validateEmail_regex:
  "validateEmail s \<longleftrightarrow>
     (\<exists>a b c. s = a @ ''@'' @ b @ ''.'' @ c \<and> a \<noteq> [] \<and> b \<noteq> [] \<and> c \<noteq> [] \<and>
              list_all plain a \<and> list_all plain b \<and> list_all plain c)"
proof
  assume "validateEmail s"
  then obtain a d where s: "s = a @ CHR ''@'' # d" and a: "a \<noteq> []" "list_all plain a"
    and d: "list_all plain d" "CHR ''.'' \<in> set (tl (butlast d))"
    unfolding validateEmail_iff by blast
  from d(2) have "d \<noteq> []" by auto
  then obtain x d' where dx: "d = x # d'" by (cases d) auto
  with d(2) have "d' \<noteq> []" by auto
  then obtain m y where dy: "d' = m @ [y]" by (cases d' rule: rev_cases) auto
  with dx d(2) have "CHR ''.'' \<in> set m" by simp
  then obtain m1 m2 where m: "m = m1 @ CHR ''.'' # m2"
    by (auto simp add: in_set_conv_decomp)
  let ?b = "x # m1" and ?c = "m2 @ [y]"
  have "s = a @ ''@'' @ ?b @ ''.'' @ ?c" using s dx dy m by simp
  moreover have "?b \<noteq> []" "?c \<noteq> []" by simp_all
  moreover have "list_all plain ?b" "list_all plain ?c"
    using d(1) dx dy m by simp_all
  ultimately show "\<exists>a b c. s = a @ ''@'' @ b @ ''.'' @ c \<and> a \<noteq> [] \<and> b \<noteq> [] \<and> c \<noteq> [] \<and>
              list_all plain a \<and> list_all plain b \<and> list_all plain c"
    using a by blast
next
  assume "\<exists>a b c. s = a @ ''@'' @ b @ ''.'' @ c \<and> a \<noteq> [] \<and> b \<noteq> [] \<and> c \<noteq> [] \<and>
              list_all plain a \<and> list_all plain b \<and> list_all plain c"
  then obtain a b c where s: "s = a @ ''@'' @ b @ ''.'' @ c" and ne: "a \<noteq> []" "b \<noteq> []" "c \<noteq> []"
    and pl: "list_all plain a" "list_all plain b" "list_all plain c"
    by blast
  have dot: "plain (CHR ''.'')" by (simp add: plain_def is_space_def)
  from ne obtain x b' where b: "b = x # b'" by (cases b) auto
  from ne obtain c' y where c: "c = c' @ [y]" by (cases c rule: rev_cases) auto
  let ?d = "b @ ''.'' @ c"
  have "butlast ?d = b @ ''.'' @ c'" using c by (simp add: butlast_append)
  then have "tl (butlast ?d) = b' @ ''.'' @ c'" using b by simp
  then have "CHR ''.'' \<in> set (tl (butlast ?d))" by simp
  moreover have "list_all plain ?d" using pl dot by simp
  moreover have "s = a @ CHR ''@'' # ?d" using s by simp
  ultimately show "validateEmail s"
    unfolding validateEmail_iff using ne pl by blast
qed

lemma toLowerCase_char_cases:
  "toLowerCase_char c = c \<or> (c \<in> set upper_case \<and> toLowerCase_char c \<in> set lower_case)"
proof (cases "map_of (zip upper_case lower_case) c")
  case None
  then show ?thesis by (simp add: toLowerCase_char_def)
next
  case (Some d)
  then have "(c, d) \<in> set (zip upper_case lower_case)" by (rule map_of_SomeD)
  then have "c \<in> set upper_case \<and> d \<in> set lower_case" by (auto elim: in_set_zipE)
  with Some show ?thesis by (simp add: toLowerCase_char_def)
qed

lemma plain_letters: "list_all plain upper_case" "list_all plain lower_case"
  by (simp_all add: upper_case_def lower_case_def plain_def is_space_def)

lemma plain_toLowerCase_char: "plain (toLowerCase_char c) = plain c"
  using toLowerCase_char_cases [of c] plain_letters
  by (auto simp add: list_all_iff)

lemma toLowerCase_at_dot:
  "toLowerCase_char (CHR ''@'') = CHR ''@''" "toLowerCase_char (CHR ''.'') = CHR ''.''"
  by (simp_all add: toLowerCase_char_def upper_case_def lower_case_def)

lemma toLowerCase_char_lower: "d \<in> set lower_case \<Longrightarrow> toLowerCase_char d = d"
proof -
  have "list_all (\<lambda>d. toLowerCase_char d = d) lower_case"
    by (simp add: lower_case_def upper_case_def toLowerCase_char_def)
  then show "d \<in> set lower_case \<Longrightarrow> toLowerCase_char d = d"
    by (simp add: list_all_iff)
qed

lemma toLowerCase_idem: "toLowerCase (toLowerCase s) = toLowerCase s"
proof -
  have "toLowerCase_char (toLowerCase_char c) = toLowerCase_char c" for c
    using toLowerCase_char_cases [of c] toLowerCase_char_lower [of "toLowerCase_char c"]
    by auto
  then show ?thesis by (simp add: toLowerCase_def)
qed

lemma validateEmail_toLowerCase: "validateEmail s \<Longrightarrow> validateEmail (toLowerCase s)"
proof -
  assume "validateEmail s"
  then obtain a d where s: "s = a @ CHR ''@'' # d" and a: "a \<noteq> []" "list_all plain a"
    and d: "list_all plain d" "CHR ''.'' \<in> set (tl (butlast d))"
    unfolding validateEmail_iff by blast
  have "toLowerCase s = toLowerCase a @ CHR ''@'' # toLowerCase d"
    using s toLowerCase_at_dot by (simp add: toLowerCase_def)
  moreover have "toLowerCase a \<noteq> []" using a by (simp add: toLowerCase_def)
  moreover have "list_all plain (toLowerCase a)" "list_all plain (toLowerCase d)"
    using a d by (simp_all add: toLowerCase_def list_all_iff plain_toLowerCase_char)
  moreover have "tl (butlast (toLowerCase d)) = toLowerCase (tl (butlast d))"
    by (simp add: toLowerCase_def map_tl map_butlast)
  then have "CHR ''.'' \<in> set (tl (butlast (toLowerCase d)))"
    using d(2) toLowerCase_at_dot by (force simp add: toLowerCase_def)
  ultimately show ?thesis
    unfolding validateEmail_iff by blast
qed

lemma trim_no_space: "list_all (\<lambda>c. \<not> is_space c) s \<Longrightarrow> trim s = s"
proof -
  assume h: "list_all (\<lambda>c. \<not> is_space c) s"
  have dw: "\<And>xs. list_all (\<lambda>c. \<not> is_space c) xs \<Longrightarrow> dropWhile is_space xs = xs"
    by (case_tac xs) auto
  from h have "list_all (\<lambda>c. \<not> is_space c) (rev s)" by (simp add: list_all_iff)
  with h dw show ?thesis by (simp add: trim_def)
qed

lemma validateEmail_trim: "validateEmail s \<Longrightarrow> trim s = s"
proof -
  assume "validateEmail s"
  then obtain a d where s: "s = a @ CHR ''@'' # d" and a: "list_all plain a"
    and d: "list_all plain d"
    unfolding validateEmail_iff by blast
  have "\<not> is_space (CHR ''@'')" by (simp add: is_space_def)
  with s a d have "list_all (\<lambda>c. \<not> is_space c) s"
    by (auto simp add: list_all_iff plain_def)
  then show ?thesis by (rule trim_no_space)
qed

lemma validateEmail_nonempty: "validateEmail s \<Longrightarrow> s \<noteq> []"
  by (auto simp add: validateEmail_def)

lemma validate_email_ok: "validateEmail e \<Longrightarrow> validate_email (toLowerCase (trim e)) = []"
  by (simp add: validate_email_def validateEmail_trim validateEmail_toLowerCase
      validateEmail_nonempty)

section \<open>Authorization\<close>

lemma roleHierarchy_spec_rank:
  "r \<in> set role_values \<Longrightarrow> roleHierarchy r = Some (spec_rank r)"
  by (auto simp add: role_values_def roleHierarchy_def spec_rank_def)

text \<open>
  Every protected route of the application names at least one allowed role, so on
  these routes the guard admits an authenticated user exactly when the user's role is
  in the route's list.
\<close>

lemma protected_routes_membership:
  assumes "(path, allowed) \<in> set protected_routes" "\<not> loading a" "currentUser a \<noteq> None"
  shows "(ProtectedRoute a path allowed c = Children c) = (userRole a \<in> set allowed)"
proof -
  from assms(1) have "allowed \<noteq> []"
    by (auto simp add: protected_routes_def)
  with assms(2,3) show ?thesis
    by (auto simp add: ProtectedRoute_def)
qed

text \<open>
  C2, as the code has it. For roles of the fixed set, \<open>hasRole\<close> grants exactly when the
  caller's rank is at least the required rank, and the admin check of
  \<open>/admin/create-user\<close> lets through exactly the callers whose rank is at least that of
  \<open>admin\<close>. The set-membership check of \<open>ProtectedRoute\<close> shows an authenticated user
  the page exactly when the list of allowed roles is empty or holds the user's role.
  A \<open>support\<close> user is denied what requires \<open>manager\<close> or \<open>admin\<close>, and is admitted
  where \<open>user\<close> and \<open>support\<close> are allowed.
\<close>

theorem authorization_checks:
  "(role u \<in> set role_values \<and> q \<in> set role_values \<longrightarrow>
      hasRole u q = (spec_rank q \<le> spec_rank (role u))) \<and>
   (tok_role caller \<in> set role_values \<longrightarrow>
      (status (fst (admin_create_user env st caller b)) \<noteq> 403) =
      (spec_rank ''admin'' \<le> spec_rank (tok_role caller))) \<and>
   (\<not> loading a \<and> currentUser a \<noteq> None \<longrightarrow>
      (ProtectedRoute a loc allowed c = Children c) =
      (allowed = [] \<or> userRole a \<in> set allowed)) \<and>
   (role u = ''support'' \<longrightarrow> \<not> hasRole u ''manager'' \<and> \<not> hasRole u ''admin'') \<and>
   (\<not> loading a \<and> currentUser a \<noteq> None \<and> userRole a = ''support'' \<longrightarrow>
      ProtectedRoute a loc [''user'', ''support''] c = Children c)"
proof (intro conjI impI)
  assume "role u \<in> set role_values \<and> q \<in> set role_values"
  then show "hasRole u q = (spec_rank q \<le> spec_rank (role u))"
    by (simp add: hasRole_def roleHierarchy_spec_rank)
next
  assume r: "tok_role caller \<in> set role_values"
  show "(status (fst (admin_create_user env st caller b)) \<noteq> 403) =
        (spec_rank ''admin'' \<le> spec_rank (tok_role caller))"
  proof (cases "tok_role caller = ''admin''")
    case False
    with r show ?thesis
      by (auto simp add: admin_create_user_def reply_def role_values_def spec_rank_def)
  next
    case True
    have "status (fst (admin_create_user env st caller b)) \<in> {400, 409, 500, 201}"
      using True
      by (auto simp add: admin_create_user_def reply_def create_failed_def
          split: sum.splits option.splits error.splits)
    then have "status (fst (admin_create_user env st caller b)) \<noteq> 403"
      by auto
    with True show ?thesis by (simp add: spec_rank_def)
  qed
next
  assume "\<not> loading a \<and> currentUser a \<noteq> None"
  then show "(ProtectedRoute a loc allowed c = Children c) =
             (allowed = [] \<or> userRole a \<in> set allowed)"
    by (auto simp add: ProtectedRoute_def)
next
  assume "role u = ''support''"
  then show "\<not> hasRole u ''manager''" by (simp add: hasRole_def roleHierarchy_def)
next
  assume "role u = ''support''"
  then show "\<not> hasRole u ''admin''" by (simp add: hasRole_def roleHierarchy_def)
next
  assume "\<not> loading a \<and> currentUser a \<noteq> None \<and> userRole a = ''support''"
  then show "ProtectedRoute a loc [''user'', ''support''] c = Children c"
    by (simp add: ProtectedRoute_def)
qed

theorem authorization_checks_witness:
  "\<not> hasRole (alice\<lparr>role := ''support''\<rparr>) ''manager'' \<and>
   hasRole (alice\<lparr>role := ''support''\<rparr>) ''user'' \<and>
   status (fst (admin_create_user demo_env [alice] (member_token ''support'') empty_body)) = 403 \<and>
   ProtectedRoute (signed_in ''support'') ''/'' [''user'', ''support''] (0::nat) = Children 0 \<and>
   ProtectedRoute (signed_in ''support'') ''/users'' [''admin''] (0::nat) \<noteq> Children 0"
  using authorization_checks [where u = "alice\<lparr>role := ''support''\<rparr>" and q = "''manager''"
      and caller = "member_token ''support''" and env = demo_env and st = "[alice]"
      and b = empty_body and a = "signed_in ''support''" and loc = "''/''"
      and allowed = "[''user'', ''support'']" and c = "0::nat"]
    authorization_checks [where u = "alice\<lparr>role := ''support''\<rparr>" and q = "''user''"
      and caller = "member_token ''support''" and env = demo_env and st = "[alice]"
      and b = empty_body and a = "signed_in ''support''" and loc = "''/users''"
      and allowed = "[''admin'']" and c = "0::nat"]
  by (simp add: alice_def member_token_def signed_in_def role_values_def spec_rank_def)

text \<open>
  C2 as stated fails where a route gives no allowed roles: the guard then shows the
  page to an authenticated user whose role is no member of the (empty) allowed set.
\<close>

theorem set_membership_counterexample:
  "ProtectedRoute (signed_in ''user'') ''/profile'' [] (0::nat) = Children 0 \<and>
   ''user'' \<notin> set ([] :: string list)"
  by (simp add: ProtectedRoute_def signed_in_def)

text \<open>
  C7: a caller whose token's role is not \<open>admin\<close> gets 403 from \<open>/admin/create-user\<close>
  whatever the body holds, and the store is as it was: the role is checked before the
  body is read.
\<close>

theorem admin_create_user_forbidden:
  "tok_role caller \<noteq> ''admin'' \<Longrightarrow>
     admin_create_user env st caller b = (reply 403 ''Access denied. Admin only.'', st) \<and>
     status (fst (admin_create_user env st caller b)) = 403"
  by (simp add: admin_create_user_def reply_def)

theorem admin_create_user_forbidden_witness:
  "tok_role (member_token ''manager'') \<noteq> ''admin'' \<and>
   admin_create_user demo_env [alice] (member_token ''manager'') empty_body =
     (reply 403 ''Access denied. Admin only.'', [alice]) \<and>
   status (fst (admin_create_user demo_env [alice] (member_token ''manager'') empty_body)) = 403"
  using admin_create_user_forbidden [of "member_token ''manager''" demo_env "[alice]" empty_body]
  by (simp add: member_token_def reply_def)

section \<open>The route guard\<close>

text \<open>
  C8: the guard renders the loading indicator while the state is loading; once loaded,
  it redirects to \<open>/login\<close> with the location asked for when there is no current user;
  it renders the access-denied view when there is a user whose role is not in a
  non-empty list of allowed roles; and it renders the protected content otherwise.
\<close>

theorem ProtectedRoute_cases:
  "(loading st \<longrightarrow> ProtectedRoute st loc allowed c = LoadingSpinner) \<and>
   (\<not> loading st \<and> currentUser st = None \<longrightarrow>
      ProtectedRoute st loc allowed c = Navigate ''/login'' loc) \<and>
   (\<not> loading st \<and> currentUser st \<noteq> None \<and> allowed \<noteq> [] \<and> userRole st \<notin> set allowed \<longrightarrow>
      ProtectedRoute st loc allowed c = AccessDenied allowed) \<and>
   (\<not> loading st \<and> currentUser st \<noteq> None \<and> (allowed = [] \<or> userRole st \<in> set allowed) \<longrightarrow>
      ProtectedRoute st loc allowed c = Children c)"
  by (auto simp add: ProtectedRoute_def)

theorem ProtectedRoute_cases_witness:
  "ProtectedRoute initial_auth ''/users'' [''admin''] (0::nat) = LoadingSpinner \<and>
   ProtectedRoute (initial_auth\<lparr>loading := False\<rparr>) ''/users'' [''admin''] (0::nat) =
     Navigate ''/login'' ''/users'' \<and>
   ProtectedRoute (signed_in ''user'') ''/users'' [''admin''] (0::nat) = AccessDenied [''admin''] \<and>
   ProtectedRoute (signed_in ''admin'') ''/users'' [''admin''] (0::nat) = Children 0"
  using ProtectedRoute_cases [of initial_auth "''/users''" "[''admin'']" "0::nat"]
    ProtectedRoute_cases [of "initial_auth\<lparr>loading := False\<rparr>" "''/users''" "[''admin'']" "0::nat"]
    ProtectedRoute_cases [of "signed_in ''user''" "''/users''" "[''admin'']" "0::nat"]
    ProtectedRoute_cases [of "signed_in ''admin''" "''/users''" "[''admin'']" "0::nat"]
  by (simp add: initial_auth_def signed_in_def)

section \<open>Login\<close>

lemma find_distinct:
  "u \<in> set st \<Longrightarrow> distinct (map f st) \<Longrightarrow> find (\<lambda>v. f v = f u) st = Some u"
  by (induction st) auto

lemma findOne_registered:
  assumes "fails env DbFind = None" "u \<in> set st" "distinct (map email st)"
    "toLowerCase (trim (email u)) = email u"
  shows "findOne env st (email u) = Inr (Some u)"
  using assms by (simp add: findOne_def find_distinct)

lemma findById_registered:
  assumes "fails env DbFind = None" "u \<in> set st" "distinct (map uid st)"
  shows "findById env st (uid u) = Inr (Some u)"
  using assms by (simp add: findById_def find_distinct)

lemma login_status: "status (fst (login env st b)) \<in> {200, 400, 401, 500}"
  by (simp add: login_def reply_def split: sum.splits option.splits bool.splits prod.splits)

text \<open>
  C3, as the code has it. For a registered account, a login with the account's email
  and an incorrect password of at least 6 characters is answered 401 and leaves the
  store as it was, when the lookup and the comparison do not fail. A password shorter
  than 6 characters is answered 400 before any account is looked up. A failing lookup
  is answered 500. The statuses of the route are 200, 400, 401 and 500.
\<close>

theorem login_wrong_password:
  "(u \<in> set st \<and> distinct (map email st) \<and> toLowerCase (trim (email u)) = email u \<and>
    validateEmail (email u) \<and> 6 \<le> length p \<and> fails env DbFind = None \<and>
    fails env BcryptCompare = None \<and> \<not> bcrypt_compare env p (password u) \<longrightarrow>
      login env st (login_request (email u) p) = (reply 401 ''Invalid email or password'', st)) \<and>
   (e \<noteq> [] \<and> validateEmail e \<and> p \<noteq> [] \<and> length p < 6 \<longrightarrow>
      login env st (login_request e p) =
        (reply 400 ''Password must be at least 6 characters long'', st)) \<and>
   (validateEmail e \<and> 6 \<le> length p \<and> fails env DbFind \<noteq> None \<longrightarrow>
      status (fst (login env st (login_request e p))) = 500) \<and>
   status (fst (login env st b)) \<in> {200, 400, 401, 500}"
proof (intro conjI impI)
  assume h: "u \<in> set st \<and> distinct (map email st) \<and> toLowerCase (trim (email u)) = email u \<and>
    validateEmail (email u) \<and> 6 \<le> length p \<and> fails env DbFind = None \<and>
    fails env BcryptCompare = None \<and> \<not> bcrypt_compare env p (password u)"
  then have f: "findOne env st (email u) = Inr (Some u)"
    by (simp add: findOne_registered)
  from h have ne: "email u \<noteq> []" "p \<noteq> []"
    by (auto simp add: validateEmail_def)
  from h have c: "comparePassword env u p = Inr False"
    by (simp add: comparePassword_def)
  show "login env st (login_request (email u) p) = (reply 401 ''Invalid email or password'', st)"
    using h f c ne
    by (simp add: login_def login_request_def empty_body_def truthy_def str_def validatePassword_def)
next
  assume "e \<noteq> [] \<and> validateEmail e \<and> p \<noteq> [] \<and> length p < 6"
  then show "login env st (login_request e p) =
        (reply 400 ''Password must be at least 6 characters long'', st)"
    by (simp add: login_def login_request_def empty_body_def truthy_def str_def validatePassword_def)
next
  assume h: "validateEmail e \<and> 6 \<le> length p \<and> fails env DbFind \<noteq> None"
  then have ne: "e \<noteq> []" "p \<noteq> []"
    by (auto simp add: validateEmail_def)
  from h obtain err where "findOne env st e = Inl err"
    by (auto simp add: findOne_def)
  with h ne show "status (fst (login env st (login_request e p))) = 500"
    by (simp add: login_def login_request_def empty_body_def truthy_def str_def validatePassword_def reply_def)
next
  show "status (fst (login env st b)) \<in> {200, 400, 401, 500}"
    by (rule login_status)
qed

theorem login_wrong_password_witness:
  "login demo_env [alice] (login_request ''a@x.com'' ''wrong1'') =
     (reply 401 ''Invalid email or password'', [alice]) \<and>
   login demo_env [alice] (login_request ''a@x.com'' ''wrong'') =
     (reply 400 ''Password must be at least 6 characters long'', [alice]) \<and>
   status (fst (login (demo_env\<lparr>fails := (\<lambda>c. Some (Error ''down''))\<rparr>) [alice]
     (login_request ''a@x.com'' ''secret1''))) = 500 \<and>
   status (fst (login demo_env [alice] (login_request ''a@x.com'' ''secret1''))) = 200"
  using login_wrong_password [where u = alice and st = "[alice]" and p = "''wrong1''"
      and env = demo_env and e = "''a@x.com''" and b = empty_body]
    login_wrong_password [where u = alice and st = "[alice]" and p = "''wrong''"
      and env = demo_env and e = "''a@x.com''" and b = empty_body]
    login_wrong_password [where u = alice and st = "[alice]" and p = "''secret1''"
      and env = "demo_env\<lparr>fails := (\<lambda>c. Some (Error ''down''))\<rparr>" and e = "''a@x.com''"
      and b = empty_body]
  by code_simp

text \<open>
  C3 as stated fails on the scenario's own request: once Alice is registered, the login
  with the password \<open>wrong\<close>, which has 5 characters, is answered 400.
\<close>

theorem login_wrong_password_counterexample:
  "register demo_env [] alice_register =
     (\<lparr>status = 201, success = True, message = ''User registered successfully'',
       res_token = Some (member_token ''user''), res_user = Some (toObject alice),
       errors = []\<rparr>, [alice]) \<and>
   status (fst (login demo_env [alice] (login_request ''a@x.com'' ''wrong''))) = 400"
  by code_simp

section \<open>Change of password\<close>

lemma change_password_unchanged:
  "status (fst (change_password env st caller b)) \<noteq> 200 \<Longrightarrow>
   snd (change_password env st caller b) = st"
  by (auto simp add: change_password_def reply_def
      split: sum.splits option.splits bool.splits prod.splits if_splits)

text \<open>
  C5, as the code has it. A request that passes the validation (a current password, and
  a new one of at least 6 characters), from a caller whose account exists, with a
  current password that does not match the stored hash, is answered 401 and leaves the
  store as it was. Whenever the answer is not 200 the store is as it was. A request
  with too short a new password is answered 400, and one from a caller whose account is
  gone 404, before the current password is compared.
\<close>

theorem change_password_wrong_current:
  "(cur \<noteq> [] \<and> 6 \<le> length new \<and> findById env st (tok_id caller) = Inr (Some u) \<and>
    fails env BcryptCompare = None \<and> \<not> bcrypt_compare env cur (password u) \<longrightarrow>
      change_password env st caller (password_request cur new) =
        (reply 401 ''Current password is incorrect'', st)) \<and>
   (status (fst (change_password env st caller b)) \<noteq> 200 \<longrightarrow>
      snd (change_password env st caller b) = st) \<and>
   (cur \<noteq> [] \<and> new \<noteq> [] \<and> length new < 6 \<longrightarrow>
      change_password env st caller (password_request cur new) =
        (reply 400 ''New password must be at least 6 characters long'', st)) \<and>
   (cur \<noteq> [] \<and> 6 \<le> length new \<and> findById env st (tok_id caller) = Inr None \<longrightarrow>
      change_password env st caller (password_request cur new) =
        (reply 404 ''User not found'', st))"
proof (intro conjI impI)
  assume h: "cur \<noteq> [] \<and> 6 \<le> length new \<and> findById env st (tok_id caller) = Inr (Some u) \<and>
    fails env BcryptCompare = None \<and> \<not> bcrypt_compare env cur (password u)"
  then have ne: "new \<noteq> []" by auto
  from h have c: "comparePassword env u cur = Inr False"
    by (simp add: comparePassword_def)
  show "change_password env st caller (password_request cur new) =
        (reply 401 ''Current password is incorrect'', st)"
    using h ne c
    by (simp add: change_password_def password_request_def empty_body_def truthy_def str_def
        validatePassword_def)
next
  assume "status (fst (change_password env st caller b)) \<noteq> 200"
  then show "snd (change_password env st caller b) = st"
    by (rule change_password_unchanged)
next
  assume "cur \<noteq> [] \<and> new \<noteq> [] \<and> length new < 6"
  then show "change_password env st caller (password_request cur new) =
        (reply 400 ''New password must be at least 6 characters long'', st)"
    by (simp add: change_password_def password_request_def empty_body_def truthy_def str_def
        validatePassword_def)
next
  assume h: "cur \<noteq> [] \<and> 6 \<le> length new \<and> findById env st (tok_id caller) = Inr None"
  then have ne: "new \<noteq> []" by auto
  show "change_password env st caller (password_request cur new) =
        (reply 404 ''User not found'', st)"
    using h ne
    by (simp add: change_password_def password_request_def empty_body_def truthy_def str_def
        validatePassword_def)
qed

theorem change_password_wrong_current_witness:
  "change_password demo_env [alice] (member_token ''user'') (password_request ''badpass1'' ''secret2'') =
     (reply 401 ''Current password is incorrect'', [alice]) \<and>
   snd (change_password demo_env [alice] (member_token ''user'') (password_request ''badpass1'' ''secret2'')) = [alice] \<and>
   change_password demo_env [alice] (member_token ''user'') (password_request ''badpass1'' ''abc'') =
     (reply 400 ''New password must be at least 6 characters long'', [alice]) \<and>
   change_password demo_env [] (member_token ''user'') (password_request ''secret1'' ''secret2'') =
     (reply 404 ''User not found'', [])"
proof -
  have f: "findById demo_env [alice] (tok_id (member_token ''user'')) = Inr (Some alice)"
    "findById demo_env [] (tok_id (member_token ''user'')) = Inr None"
    by (simp_all add: findById_def demo_env_def alice_def member_token_def)
  have c: "fails demo_env BcryptCompare = None"
    "\<not> bcrypt_compare demo_env ''badpass1'' (password alice)"
    by (simp_all add: demo_env_def alice_def)
  have s: "status (reply 401 ''Current password is incorrect'') \<noteq> 200"
    by (simp add: reply_def)
  show ?thesis
    using change_password_wrong_current [where cur = "''badpass1''" and new = "''secret2''"
        and env = demo_env and st = "[alice]" and caller = "member_token ''user''" and u = alice
        and b = "password_request ''badpass1'' ''secret2''"]
      change_password_wrong_current [where cur = "''badpass1''" and new = "''abc''"
        and env = demo_env and st = "[alice]" and caller = "member_token ''user''" and u = alice
        and b = empty_body]
      change_password_wrong_current [where cur = "''secret1''" and new = "''secret2''"
        and env = demo_env and st = "[]" and caller = "member_token ''user''" and u = alice
        and b = empty_body]
      f c s
    by simp
qed

text \<open>
  C5 as stated fails for a request that does not pass the validation: with a current
  password that does not match and a new password of 3 characters the answer is 400.
\<close>

theorem change_password_counterexample:
  "comparePassword demo_env alice ''badpass1'' = Inr False \<and>
   status (fst (change_password demo_env [alice] (member_token ''user'')
     (password_request ''badpass1'' ''abc''))) = 400"
  by code_simp

text \<open>
  C6, as the code has it: the statuses of \<open>/change-password\<close> behind a valid token are
  200, 400, 401, 404 and 500.
\<close>

theorem change_password_statuses:
  "status (fst (change_password env st caller b)) \<in> {200, 400, 401, 404, 500}"
  by (simp add: change_password_def reply_def
      split: sum.splits option.splits bool.splits prod.splits)

theorem change_password_statuses_witness:
  "status (fst (change_password demo_env [alice] (member_token ''user'')
     (password_request ''secret1'' ''secret2''))) \<in> {200, 400, 401, 404, 500} \<and>
   status (fst (change_password demo_env [alice] (member_token ''user'')
     (password_request ''secret1'' ''secret2''))) = 200"
proof -
  have "status (fst (change_password demo_env [alice] (member_token ''user'')
     (password_request ''secret1'' ''secret2''))) = 200"
    by code_simp
  with change_password_statuses [of demo_env "[alice]" "member_token ''user''"
      "password_request ''secret1'' ''secret2''"]
  show ?thesis by simp
qed

text \<open>
  C6 as stated fails for a valid token whose account is no longer in the store: the
  answer is 404.
\<close>

theorem change_password_statuses_counterexample:
  "status (fst (change_password demo_env [] (member_token ''user'')
     (password_request ''secret1'' ''secret2''))) = 404"
  by code_simp

section \<open>Stored passwords\<close>

text \<open>
  What the two hooks do with a password: \<open>save\<close> stores the hash of a password of at
  least 6 characters and rejects a shorter one; the update hook does the same for a
  truthy password, and lets an absent or empty one through as it is.
\<close>

lemma pre_findOneAndUpdate_falsy:
  "\<not> truthy (upd_password upd) \<Longrightarrow> pre_findOneAndUpdate env upd = (upd, [None])"
  by (simp add: pre_findOneAndUpdate_def)

lemma pre_findOneAndUpdate_truthy:
  "truthy (upd_password upd) \<Longrightarrow> pre_findOneAndUpdate env upd = (upd', calls) \<Longrightarrow>
   first_next calls = None \<Longrightarrow>
   6 \<le> length (str (upd_password upd)) \<and>
   upd_password upd' = Some (bcrypt_hash env (str (upd_password upd)) (genSalt env 12))"
  by (auto simp add: pre_findOneAndUpdate_def first_next_def hash_password_def
      split: if_splits sum.splits option.splits)

lemma pre_findOneAndUpdate_short:
  "truthy (upd_password upd) \<Longrightarrow> length (str (upd_password upd)) < 6 \<Longrightarrow>
   findOneAndUpdate env st i upd = Inl (Error ''Password must be at least 6 characters long'')"
  by (simp add: findOneAndUpdate_def pre_findOneAndUpdate_def first_next_def)

lemma save_hashes:
  "save env st isNew True u = Inr (u', st') \<Longrightarrow>
   6 \<le> length (password u) \<and>
   u' = u\<lparr>password := bcrypt_hash env (password u) (genSalt env 12)\<rparr>"
  by (auto simp add: save_def pre_save_def hash_password_def
      split: list.splits sum.splits option.splits if_splits)

text \<open>
  After a save that set the password, \<open>comparePassword\<close> is bcryptjs's \<open>compare\<close> of
  the candidate with bcryptjs's hash of that password.
\<close>

lemma comparePassword_after_save:
  "save env st isNew True u = Inr (u', st') \<Longrightarrow> fails env BcryptCompare = None \<Longrightarrow>
   comparePassword env u' c =
     Inr (bcrypt_compare env c (bcrypt_hash env (password u) (genSalt env 12)))"
  by (auto simp add: comparePassword_def dest: save_hashes)

text \<open>
  C1 fails on the update path for the empty password: the hook \<open>pre('findOneAndUpdate')\<close>
  neither rejects nor hashes it, and the update stores it as it is, while the hook
  \<open>pre('save')\<close> rejects the same password.
\<close>

theorem update_hook_empty_password:
  "findOneAndUpdate demo_env [alice] 1 \<lparr>upd_name = None, upd_password = Some ''''\<rparr> =
     Inr [alice\<lparr>password := ''''\<rparr>] \<and>
   pre_save demo_env True (alice\<lparr>password := ''''\<rparr>) =
     Inl (Error ''Password must be at least 6 characters long'')"
  by (simp add: findOneAndUpdate_def pre_findOneAndUpdate_def first_next_def truthy_def
      apply_update_def pre_save_def demo_env_def alice_def)

section \<open>Registration\<close>

lemma validate_maxlength_msg:
  "validate_maxlength [] v = [] \<Longrightarrow> validate_maxlength m v = []"
  by (auto simp add: validate_maxlength_def split: option.splits if_splits)

lemma register_saves:
  assumes v: "valid_registration env st b"
  shows "save env st True True
           (new_User env (str (body_name b)) (str (body_email b)) (str (body_password b)) r
              (or_null (body_department b)) (or_null (body_position b))) =
         (if r \<in> set role_values
          then Inr (registered env b r, st @ [registered env b r])
          else Inl (ValidationError [''Role must be one of: admin, manager, support, user'']))"
proof -
  let ?u = "new_User env (str (body_name b)) (str (body_email b)) (str (body_password b)) r
              (or_null (body_department b)) (or_null (body_position b))"
  from v have e: "validateEmail (str (body_email b))"
    and p: "6 \<le> length (str (body_password b))"
    by (simp_all add: valid_registration_def validatePassword_def)
  from p have pv: "validate_password (str (body_password b)) = []"
    by (auto simp add: validate_password_def)
  from v have val: "validate ?u = validate_role r"
    using e pv
    by (simp add: validate_def new_User_def valid_registration_def validate_email_ok
        validate_maxlength_msg)
  from v have h: "hash_password env (str (body_password b)) =
      Inr (bcrypt_hash env (str (body_password b)) (genSalt env 12))"
    by (simp add: hash_password_def valid_registration_def)
  from p h have ps: "pre_save env True ?u = Inr (registered env b r)"
    using e by (simp add: pre_save_def new_User_def registered_def validateEmail_trim)
  from v have "find (\<lambda>u. email u = toLowerCase (trim (str (body_email b)))) st = None"
    by (simp add: valid_registration_def findOne_def split: option.splits)
  then have "\<not> list_ex (\<lambda>v. email v = toLowerCase (str (body_email b))) st"
    using e by (simp add: find_None_iff list_ex_iff validateEmail_trim)
  moreover from v have "\<not> list_ex (\<lambda>v. uid v = fresh_id env) st"
    by (simp add: valid_registration_def)
  ultimately have dup: "\<not> list_ex (\<lambda>v. email v = email (registered env b r) \<or>
      uid v = uid (registered env b r)) st"
    by (simp add: registered_def list_ex_iff)
  from v have f: "fails env DbSave = None" by (simp add: valid_registration_def)
  show ?thesis
  proof (cases "r \<in> set role_values")
    case True
    then have "validate ?u = []" using val by (simp add: validate_role_def)
    with ps dup f True show ?thesis by (simp add: save_def)
  next
    case False
    then have "validate ?u = [''Role must be one of: admin, manager, support, user'']"
      using val by (simp add: validate_role_def)
    with False show ?thesis by (simp add: save_def)
  qed
qed

lemma register_stores:
  "valid_registration env st b \<Longrightarrow>
     (body_role b = Some r \<and> r \<in> set role_values \<longrightarrow>
        status (fst (register env st b)) = 201 \<and>
        snd (register env st b) = st @ [registered env b r] \<and>
        role (registered env b r) = r) \<and>
     (\<not> truthy (body_role b) \<longrightarrow>
        status (fst (register env st b)) = 201 \<and>
        snd (register env st b) = st @ [registered env b ''user'']) \<and>
     (body_role b = Some r \<and> r \<noteq> [] \<and> r \<notin> set role_values \<longrightarrow>
        status (fst (register env st b)) = 400 \<and> snd (register env st b) = st)"
proof (intro conjI impI)
  assume v: "valid_registration env st b"
  then have pre: "truthy (body_name b)" "truthy (body_email b)" "truthy (body_password b)"
    "validateEmail (str (body_email b))" "validatePassword (body_password b)"
    "findOne env st (str (body_email b)) = Inr None" "fails env JwtSign = None"
    by (auto simp add: valid_registration_def validatePassword_def truthy_def str_def
        dest: validateEmail_nonempty split: option.splits)
  have user: "''user'' \<in> set role_values" by (simp add: role_values_def)
  {
    assume r: "body_role b = Some r \<and> r \<in> set role_values"
    then have "r \<noteq> []" by (auto simp add: role_values_def)
    with r have o: "or_else (body_role b) ''user'' = r"
      by (simp add: or_else_def truthy_def str_def)
    show "status (fst (register env st b)) = 201"
      using pre o r register_saves [OF v, of r]
      by (simp add: register_def jwt_sign_def)
    show "snd (register env st b) = st @ [registered env b r]"
      using pre o r register_saves [OF v, of r]
      by (simp add: register_def jwt_sign_def)
    show "role (registered env b r) = r"
      by (simp add: registered_def)
  }
  {
    assume "\<not> truthy (body_role b)"
    then have o: "or_else (body_role b) ''user'' = ''user''"
      by (simp add: or_else_def)
    show "status (fst (register env st b)) = 201"
      using pre o user register_saves [OF v, of "''user''"]
      by (simp add: register_def jwt_sign_def)
    show "snd (register env st b) = st @ [registered env b ''user'']"
      using pre o user register_saves [OF v, of "''user''"]
      by (simp add: register_def jwt_sign_def)
  }
  {
    assume r: "body_role b = Some r \<and> r \<noteq> [] \<and> r \<notin> set role_values"
    then have o: "or_else (body_role b) ''user'' = r"
      by (simp add: or_else_def truthy_def str_def)
    show "status (fst (register env st b)) = 400"
      using pre o r register_saves [OF v, of r]
      by (simp add: register_def create_failed_def reply_def)
    show "snd (register env st b) = st"
      using pre o r register_saves [OF v, of r]
      by (simp add: register_def create_failed_def reply_def)
  }
qed

text \<open>
  The email of a stored registration is well formed and is what the setters make of
  it, so that a lookup by it finds the account.
\<close>

lemma registered_email:
  assumes "valid_registration env st b"
  shows "validateEmail (email (registered env b r)) \<and>
         toLowerCase (trim (email (registered env b r))) = email (registered env b r)"
proof -
  from assms have "validateEmail (str (body_email b))"
    by (simp add: valid_registration_def)
  then have v: "validateEmail (toLowerCase (str (body_email b)))"
    by (rule validateEmail_toLowerCase)
  then have "trim (toLowerCase (str (body_email b))) = toLowerCase (str (body_email b))"
    by (rule validateEmail_trim)
  with v show ?thesis by (simp add: registered_def toLowerCase_idem)
qed

text \<open>
  C9, as the code has it. The public route \<open>/register\<close>, which reads no token, stores
  the role of a valid registration as the caller gave it when it is one of the schema's
  four roles; it stores \<open>user\<close> when the role is absent or empty; and it answers 400
  and stores nothing when the role is any other text. The registration form offers
  \<open>admin\<close>, and the client's simulated \<open>register\<close> keeps whatever role it is given.
\<close>

theorem register_role:
  "(valid_registration env st b \<and> body_role b = Some r \<and> r \<in> set role_values \<longrightarrow>
      status (fst (register env st b)) = 201 \<and>
      snd (register env st b) = st @ [registered env b r] \<and>
      role (registered env b r) = r) \<and>
   (valid_registration env st b \<and> \<not> truthy (body_role b) \<longrightarrow>
      status (fst (register env st b)) = 201 \<and>
      snd (register env st b) = st @ [registered env b ''user'']) \<and>
   (valid_registration env st b \<and> body_role b = Some r \<and> r \<noteq> [] \<and> r \<notin> set role_values \<longrightarrow>
      status (fst (register env st b)) = 400 \<and> snd (register env st b) = st) \<and>
   ''admin'' \<in> set availableRoles \<and>
   (AuthProvider_register sim s i e p (Some q) = Inr (sim', ls', a') \<longrightarrow>
      userRole a' = q \<and> ls_userRole ls' = Some q)"
proof (intro conjI impI)
  assume "valid_registration env st b \<and> body_role b = Some r \<and> r \<in> set role_values"
  then show "status (fst (register env st b)) = 201"
    "snd (register env st b) = st @ [registered env b r]" "role (registered env b r) = r"
    using register_stores [of env st b r] by simp_all
next
  assume "valid_registration env st b \<and> \<not> truthy (body_role b)"
  then show "status (fst (register env st b)) = 201"
    "snd (register env st b) = st @ [registered env b ''user'']"
    using register_stores [of env st b r] by simp_all
next
  assume "valid_registration env st b \<and> body_role b = Some r \<and> r \<noteq> [] \<and> r \<notin> set role_values"
  then show "status (fst (register env st b)) = 400" "snd (register env st b) = st"
    using register_stores [of env st b r] by simp_all
next
  show "''admin'' \<in> set availableRoles" by (simp add: availableRoles_def)
next
  assume "AuthProvider_register sim s i e p (Some q) = Inr (sim', ls', a')"
  then show "userRole a' = q" "ls_userRole ls' = Some q"
    by (auto simp add: AuthProvider_register_def Let_def split: if_splits)
qed

theorem register_role_witness:
  "valid_registration demo_env [] (alice_register\<lparr>body_role := Some ''admin''\<rparr>) \<and>
   status (fst (register demo_env [] (alice_register\<lparr>body_role := Some ''admin''\<rparr>))) = 201 \<and>
   snd (register demo_env [] (alice_register\<lparr>body_role := Some ''admin''\<rparr>)) =
     [alice\<lparr>role := ''admin''\<rparr>] \<and>
   snd (register demo_env [] alice_register) = [alice] \<and>
   status (fst (register demo_env [] (alice_register\<lparr>body_role := Some ''root''\<rparr>))) = 400"
proof -
  have v: "valid_registration demo_env [] (alice_register\<lparr>body_role := Some ''admin''\<rparr>)"
    "valid_registration demo_env [] alice_register"
    "valid_registration demo_env [] (alice_register\<lparr>body_role := Some ''root''\<rparr>)"
    by code_simp+
  have r: "registered demo_env (alice_register\<lparr>body_role := Some ''admin''\<rparr>) ''admin'' =
      alice\<lparr>role := ''admin''\<rparr>"
    "registered demo_env alice_register ''user'' = alice"
    by code_simp+
  have b: "body_role (alice_register\<lparr>body_role := Some ''admin''\<rparr>) = Some ''admin''"
    "\<not> truthy (body_role alice_register)"
    "body_role (alice_register\<lparr>body_role := Some ''root''\<rparr>) = Some ''root''"
    "''admin'' \<in> set role_values" "''root'' \<notin> set role_values"
    by (simp_all add: alice_register_def empty_body_def truthy_def role_values_def)
  show ?thesis
    using v r b
      register_role [where env = demo_env and st = "[]"
        and b = "alice_register\<lparr>body_role := Some ''admin''\<rparr>" and r = "''admin''"]
      register_role [where env = demo_env and st = "[]" and b = alice_register]
      register_role [where env = demo_env and st = "[]"
        and b = "alice_register\<lparr>body_role := Some ''root''\<rparr>" and r = "''root''"]
    by simp
qed

text \<open>
  C9 as stated fails for a role field that is present but empty, which is stored as
  \<open>user\<close>, and for a role outside the schema's enum, which is answered 400 and not
  stored.
\<close>

theorem register_role_counterexample:
  "map role (snd (register demo_env [] (alice_register\<lparr>body_role := Some ''''\<rparr>))) = [''user''] \<and>
   status (fst (register demo_env [] (alice_register\<lparr>body_role := Some ''root''\<rparr>))) = 400 \<and>
   snd (register demo_env [] (alice_register\<lparr>body_role := Some ''root''\<rparr>)) = []"
  by code_simp

section \<open>The client's startup\<close>

text \<open>
  A stored session is restored only when \<open>simulatedUsers[email]\<close> is truthy; a stored
  session of any other email is cleared, which is so for every well-formed email
  address other than the two simulated ones, and for an account the simulated
  \<open>register\<close> created before the page was loaded again.
\<close>

lemma startup_restored:
  "currentUser (snd (startup ls)) \<noteq> None \<Longrightarrow>
   \<exists>ud. ls_currentUser ls = Some (Parsed ud) \<and>
        has_truthy simulatedUsers (property_key (ud_email ud))"
  by (auto simp add: startup_def checkAuthStatus_def clearAuthStorage_def initial_auth_def
      Let_def split: if_splits option.splits stored_user.splits)

lemma startup_cleared:
  "ls_currentUser ls = Some (Parsed ud) \<Longrightarrow> truthy (ls_userRole ls) \<Longrightarrow>
   truthy (ls_userId ls) \<Longrightarrow> \<not> has_truthy simulatedUsers (property_key (ud_email ud)) \<Longrightarrow>
   startup ls = signed_out"
  by (simp add: startup_def checkAuthStatus_def clearAuthStorage_def initial_auth_def
      signed_out_def)

lemma startup_malformed:
  "ls_currentUser ls = Some Malformed \<Longrightarrow> truthy (ls_userRole ls) \<Longrightarrow>
   truthy (ls_userId ls) \<Longrightarrow> startup ls = signed_out"
  by (simp add: startup_def checkAuthStatus_def clearAuthStorage_def initial_auth_def
      signed_out_def)

lemma no_at_in_Object_prototype: "k \<in> set Object_prototype \<Longrightarrow> CHR ''@'' \<notin> set k"
  by (auto simp add: Object_prototype_def)

lemma validateEmail_not_inherited: "validateEmail e \<Longrightarrow> e \<notin> set Object_prototype"
proof
  assume "validateEmail e" and "e \<in> set Object_prototype"
  then show False
    unfolding validateEmail_iff using no_at_in_Object_prototype [of e] by auto
qed

lemma startup_unknown_email:
  assumes "ls_currentUser ls = Some (Parsed ud)" "ud_email ud = Some e" "validateEmail e"
    "e \<noteq> ''admin@example.com''" "e \<noteq> ''user@example.com''"
    "truthy (ls_userRole ls)" "truthy (ls_userId ls)"
  shows "startup ls = signed_out"
proof -
  from assms have "\<not> has_truthy simulatedUsers (property_key (ud_email ud))"
    by (simp add: has_truthy_def property_key_def simulatedUsers_def
        validateEmail_not_inherited)
  with assms show ?thesis by (simp add: startup_cleared)
qed

lemma registered_session_lost:
  assumes "AuthProvider_register simulatedUsers s i e p r = Inr (sim', ls', a')"
    "i \<noteq> []" "r \<noteq> Some []"
  shows "startup ls' = signed_out"
proof -
  from assms(1) have v: "validateEmail e" and n: "\<not> has_truthy simulatedUsers e"
    by (auto simp add: AuthProvider_register_def split: if_splits)
  from assms have ls: "ls_currentUser ls' = Some (Parsed \<lparr>ud_email = Some e, ud_uid = Some i\<rparr>)"
    "truthy (ls_userRole ls')" "truthy (ls_userId ls')"
    by (auto simp add: AuthProvider_register_def Let_def truthy_def split: if_splits option.splits)
  from n have "\<not> has_truthy simulatedUsers (property_key (ud_email \<lparr>ud_email = Some e, ud_uid = Some i\<rparr>))"
    by (simp add: property_key_def)
  with ls show ?thesis by (simp add: startup_cleared)
qed

text \<open>
  C10 fails for a stored email that names a property every object inherits: it is no
  key of \<open>simulatedUsers\<close>, yet the session is restored, with the stored role, and the
  storage is kept.
\<close>

theorem startup_inherited_key:
  "map_of simulatedUsers ''constructor'' = None \<and>
   startup tampered_storage =
     (tampered_storage,
      \<lparr>currentUser = Some \<lparr>ud_email = Some ''constructor'', ud_uid = Some ''u1''\<rparr>,
       userRole = ''admin'', userId = Some ''u1'', loading = False\<rparr>)"
  by (simp add: startup_def checkAuthStatus_def tampered_storage_def simulatedUsers_def
      initial_auth_def has_truthy_def property_key_def Object_prototype_def truthy_def str_def)

end
